theory Spec2Isabelle
  imports Main "HOL-Library.Word" "HOL-Library.Sublist"
begin

unbundle bit_operations_syntax

section \<open>Resolving a physical path against the device tree (phal-devtree)\<close>

text \<open>
  The embedding follows \<^verbatim>\<open>src/libguard/devtree/phal_devtree.cpp\<close>.  The two
  file-level buffers become a record that every function takes and returns; a log line
  becomes a value appended to the list of diagnostics; a C++ exception and a read or
  write past the end of an array become the left summand of the result.
\<close>

subsection \<open>Constants and types declared outside the sources\<close>

text \<open>
  The attribute buffer types and \<^verbatim>\<open>EntityPath\<close> are declared in headers that are not
  among the sources, so their sizes are parameters of the model:
  \<^item> \<open>sizeof_physStringPath\<close> is \<^verbatim>\<open>sizeof(ATTR_PHYS_DEV_PATH_Type)\<close>,
  \<^item> \<open>sizeof_physBinaryPath\<close> is \<^verbatim>\<open>sizeof(ATTR_PHYS_BIN_PATH_Type)\<close>,
  \<^item> \<open>sizeof_EntityPath\<close> is \<^verbatim>\<open>sizeof(EntityPath)\<close>,
  \<^item> \<open>maxPathElements\<close> is \<^verbatim>\<open>EntityPath::maxPathElements\<close>.
\<close>

record config =
  sizeof_physStringPath :: nat
  sizeof_physBinaryPath :: nat
  sizeof_EntityPath :: nat
  maxPathElements :: nat

record PathElement =
  targetType :: "8 word"
  instance' :: "8 word"

record EntityPath =
  type_size :: "8 word"
  pathElements :: "PathElement list"

text \<open>
  Modelled from the spec: the size of one \<^verbatim>\<open>PathElement\<close>, whose declaration is missing;
  the spec gives it as a pair of bytes, read at offset \<open>1 + i * 2\<close>.
\<close>

definition sizeof_PathElement :: nat where
  "sizeof_PathElement = 2"

text \<open>
  Modelled from the spec: the value of a freshly declared \<^verbatim>\<open>EntityPath\<close>, whose
  constructor is missing; the spec leaves the elements past the count unset or zero.
  The array has \<open>maxPathElements\<close> slots.
\<close>

definition defaultEntityPath :: "config \<Rightarrow> EntityPath" where
  "defaultEntityPath cfg =
     \<lparr>type_size = 0,
      pathElements = replicate (maxPathElements cfg) \<lparr>targetType = 0, instance' = 0\<rparr>\<rparr>"

subsection \<open>Failures, diagnostics and the shared buffers\<close>

datatype failure =
  OutOfRange    \<comment> \<open>\<^verbatim>\<open>std::out_of_range\<close> thrown by a \<^verbatim>\<open>std::string\<close> member\<close>
| OutOfBounds   \<comment> \<open>an array accessed past its end: undefined behaviour in C++\<close>

text \<open>One constructor for each call of \<^verbatim>\<open>guard_log\<close>, with the arguments in the order passed.\<close>

datatype diag =
  PhysPathSizeMismatch nat nat
    \<comment> \<open>\<^verbatim>\<open>Physical path size mismatch with given[..] and max size[..]\<close>, line 143\<close>
| PhysPathNotFound
    \<comment> \<open>\<^verbatim>\<open>Given physical path not found in power system device tree\<close>, line 171\<close>
| BinaryValueNotFound
    \<comment> \<open>\<^verbatim>\<open>Binary value for given physical path is not found in device tree\<close>, line 178\<close>
| BinarySizeMismatch nat nat
    \<comment> \<open>\<^verbatim>\<open>Physical path binary size mismatch with devtree[..] guard[..]\<close>, line 186\<close>
| PathElementsSizeMismatch nat nat
    \<comment> \<open>\<^verbatim>\<open>Path elements size mismatch with devtree[..] guard max size[..]\<close>, line 203\<close>

record globals =
  g_physBinaryPath :: "8 word list"
  g_physStringPath :: "char list"

definition fbind :: "failure + 'a \<Rightarrow> ('a \<Rightarrow> failure + 'b) \<Rightarrow> failure + 'b" where
  "fbind m f = (case m of Inl e \<Rightarrow> Inl e | Inr x \<Rightarrow> f x)"

subsection \<open>The string operations used by the normalisation\<close>

definition NUL :: char where
  "NUL = CHR 0x00"

text \<open>
  \<^verbatim>\<open>::tolower\<close> in the C locale: the 26 upper-case ASCII letters move, every other
  byte is returned as it is.
\<close>

definition tolower :: "char \<Rightarrow> char" where
  "tolower c =
     (let n = (of_char c :: nat) in if 65 \<le> n \<and> n \<le> 90 then char_of (n + 32) else c)"

text \<open>
  \<^verbatim>\<open>s.compare(pos, len, t) == 0\<close>: throws when \<open>pos\<close> is past the end, otherwise
  compares the substring of at most \<open>len\<close> characters at \<open>pos\<close> with \<open>t\<close>.
\<close>

definition str_compare_is_0 :: "string \<Rightarrow> nat \<Rightarrow> nat \<Rightarrow> string \<Rightarrow> failure + bool" where
  "str_compare_is_0 s pos len t =
     (if pos > length s then Inl OutOfRange else Inr (take len (drop pos s) = t))"

definition str_erase :: "string \<Rightarrow> nat \<Rightarrow> nat \<Rightarrow> failure + string" where
  "str_erase s pos len =
     (if pos > length s then Inl OutOfRange else Inr (take pos s @ drop (pos + len) s))"

definition str_insert :: "string \<Rightarrow> nat \<Rightarrow> string \<Rightarrow> failure + string" where
  "str_insert s pos t =
     (if pos > length s then Inl OutOfRange else Inr (take pos s @ t @ drop pos s))"

text \<open>
  \<^verbatim>\<open>s.find(t, pos, n)\<close>: the first index at or after \<open>pos\<close> where the first \<open>n\<close>
  characters of \<open>t\<close> occur in \<open>s\<close>; \<open>None\<close> is \<^verbatim>\<open>std::string::npos\<close>.
\<close>

fun find_from :: "string \<Rightarrow> string \<Rightarrow> nat \<Rightarrow> nat option" where
  "find_from [] pat i = (if pat = [] then Some i else None)"
| "find_from (c # cs) pat i =
     (if prefix pat (c # cs) then Some i else find_from cs pat (Suc i))"

definition str_find :: "string \<Rightarrow> string \<Rightarrow> nat \<Rightarrow> nat \<Rightarrow> nat option" where
  "str_find s t pos n =
     (if pos > length s then None else find_from (drop pos s) (take n t) pos)"

subsection \<open>Normalisation of the caller's path (lines 118 to 138)\<close>

definition normalizePath :: "string \<Rightarrow> failure + string" where
  "normalizePath physicalPath =
     (let l0 = map tolower physicalPath in
      fbind (str_compare_is_0 l0 0 1 ''/'') (\<lambda>isSep.
      fbind (if isSep then str_erase l0 0 1 else Inr l0) (\<lambda>l1.
      if str_find l1 ''physical:'' 0 9 = None
      then str_insert l1 0 ''physical:''
      else Inr l1)))"

subsection \<open>The length check and the installation of the search target (lines 140 to 163)\<close>

text \<open>
  Subtraction of two \<^verbatim>\<open>size_t\<close> values, taken as 64 bits wide: it wraps around
  below zero.  (Lemma \<open>normalizePath_length\<close> below shows that the length checked is
  never 0, so the check never wraps.)
\<close>

definition size_t_sub :: "nat \<Rightarrow> nat \<Rightarrow> nat" where
  "size_t_sub a b = (if b \<le> a then a - b else 2 ^ 64 - (b - a))"

text \<open>
  \<^verbatim>\<open>strncpy(dest, src, n)\<close>: the characters of \<open>src\<close> before its first NUL, at most
  \<open>n\<close> of them, then NULs up to \<open>n\<close>; no NUL is written when \<open>src\<close> has \<open>n\<close> or more
  characters before its terminator.  The rest of \<open>dest\<close> is kept.
\<close>

definition strncpy :: "char list \<Rightarrow> char list \<Rightarrow> nat \<Rightarrow> char list" where
  "strncpy dest src n =
     (let s = takeWhile (\<lambda>c. c \<noteq> NUL) src
      in take n s @ replicate (n - length s) NUL @ drop n dest)"

text \<open>\<^verbatim>\<open>l.c_str()\<close>: the characters of the string followed by the terminator.\<close>

definition c_str :: "string \<Rightarrow> char list" where
  "c_str l = l @ [NUL]"

subsection \<open>The visitor (lines 56 to 109)\<close>

definition continueTgtTraversal :: int where
  "continueTgtTraversal = 0"

definition requireAttrFound :: int where
  "requireAttrFound = 1"

definition requireAttrNotFound :: int where
  "requireAttrNotFound = 2"

text \<open>
  A target of the device tree, as far as the visitor reads it: what \<^verbatim>\<open>DT_GET_PROP\<close>
  delivers for each of the two attributes.  \<open>None\<close> is a non-zero return of the macro
  (attribute not found); \<open>Some b\<close> is the content \<open>b\<close> of the buffer it filled.
\<close>

record target =
  ATTR_PHYS_DEV_PATH :: "char list option"
  ATTR_PHYS_BIN_PATH :: "8 word list option"

text \<open>
  \<^verbatim>\<open>strcmp(a, b) == 0\<close> on two character arrays: the comparison walks both until the
  first difference or until a NUL in both; walking off the end of an array before
  either happens is a read out of bounds.
\<close>

fun strcmp_is_0 :: "char list \<Rightarrow> char list \<Rightarrow> failure + bool" where
  "strcmp_is_0 (a # as) (b # bs) =
     (if a \<noteq> b then Inr False else if a = NUL then Inr True else strcmp_is_0 as bs)"
| "strcmp_is_0 _ _ = Inl OutOfBounds"

definition pdbgCallbackToGetPhysicaBinaryPath ::
  "config \<Rightarrow> target \<Rightarrow> globals \<Rightarrow> failure + (int \<times> globals)" where
  "pdbgCallbackToGetPhysicaBinaryPath cfg tgt g =
     (case ATTR_PHYS_DEV_PATH tgt of
        None \<Rightarrow> Inr (continueTgtTraversal, g)
      | Some physStringPath \<Rightarrow>
          fbind (strcmp_is_0 (g_physStringPath g) physStringPath) (\<lambda>same.
            if \<not> same then Inr (continueTgtTraversal, g)
            else
              let g1 = g\<lparr>g_physBinaryPath := replicate (sizeof_physBinaryPath cfg) 0\<rparr>
              in (case ATTR_PHYS_BIN_PATH tgt of
                    None \<Rightarrow> Inr (requireAttrNotFound, g1)
                  | Some bin \<Rightarrow> Inr (requireAttrFound, g1\<lparr>g_physBinaryPath := bin\<rparr>))))"

text \<open>
  Modelled from the spec: \<^verbatim>\<open>pdbg_traverse\<close>, the traversal primitive of the external
  library.  It visits the targets in a fixed order, here the order of the list, calls the
  visitor on each, returns 0 if no call returned non-zero, and otherwise stops at the
  first call that did and returns that call's code.
\<close>

fun pdbg_traverse ::
  "(target \<Rightarrow> globals \<Rightarrow> failure + (int \<times> globals)) \<Rightarrow> target list \<Rightarrow> globals
     \<Rightarrow> failure + (int \<times> globals)" where
  "pdbg_traverse cb [] g = Inr (0, g)"
| "pdbg_traverse cb (t # ts) g =
     (case cb t g of
        Inl f \<Rightarrow> Inl f
      | Inr (rc, g') \<Rightarrow> if rc \<noteq> 0 then Inr (rc, g') else pdbg_traverse cb ts g')"

subsection \<open>Decoding the binary path (lines 197 to 217)\<close>

definition read_at :: "'a list \<Rightarrow> nat \<Rightarrow> failure + 'a" where
  "read_at buf j = (if j < length buf then Inr (buf ! j) else Inl OutOfBounds)"

definition write_at :: "'a list \<Rightarrow> nat \<Rightarrow> 'a \<Rightarrow> failure + 'a list" where
  "write_at buf i v = (if i < length buf then Inr (buf[i := v]) else Inl OutOfBounds)"

text \<open>
  The \<^verbatim>\<open>for\<close> loop of lines 210 to 215, entered with \<open>i = 0\<close> and \<open>j = 1\<close>;
  \<open>n\<close> is \<^verbatim>\<open>pathElementsSize\<close>.
\<close>

function decode_loop ::
  "8 word list \<Rightarrow> nat \<Rightarrow> nat \<Rightarrow> nat \<Rightarrow> EntityPath \<Rightarrow> failure + EntityPath" where
  "decode_loop raw n i j entityPath =
     (if i < n then
        (case read_at raw j of
           Inl f \<Rightarrow> Inl f
         | Inr t \<Rightarrow>
            (case read_at raw (j + 1) of
               Inl f \<Rightarrow> Inl f
             | Inr v \<Rightarrow>
                (case write_at (pathElements entityPath) i \<lparr>targetType = t, instance' = v\<rparr> of
                   Inl f \<Rightarrow> Inl f
                 | Inr elems \<Rightarrow>
                     decode_loop raw n (i + 1) (j + sizeof_PathElement)
                       (entityPath\<lparr>pathElements := elems\<rparr>))))
      else Inr entityPath)"
  by pat_completeness auto
termination
  by (relation "measure (\<lambda>(raw, n, i, j, entityPath). n - i)") auto

declare decode_loop.simps [simp del]

definition decodeBinaryPath ::
  "config \<Rightarrow> 8 word list \<Rightarrow> failure + (EntityPath option \<times> diag list)" where
  "decodeBinaryPath cfg raw =
     fbind (read_at raw 0) (\<lambda>b0.
       let entityPath = (defaultEntityPath cfg)\<lparr>type_size := b0\<rparr>;
           pathElementsSize = type_size entityPath AND 0x0F
       in if unat pathElementsSize > maxPathElements cfg
          then Inr (None,
                 [PathElementsSizeMismatch (unat pathElementsSize) (maxPathElements cfg)])
          else fbind (decode_loop raw (unat pathElementsSize) 0 1 entityPath)
                 (\<lambda>e. Inr (Some e, [])))"

subsection \<open>What follows the traversal (lines 169 to 217)\<close>

definition afterTraverse ::
  "config \<Rightarrow> int \<Rightarrow> 8 word list \<Rightarrow> failure + (EntityPath option \<times> diag list)" where
  "afterTraverse cfg ret raw =
     (if ret = 0 then Inr (None, [PhysPathNotFound])
      else if ret = requireAttrNotFound then Inr (None, [BinaryValueNotFound])
      else if sizeof_EntityPath cfg < sizeof_physBinaryPath cfg
      then Inr (None,
             [BinarySizeMismatch (sizeof_physBinaryPath cfg) (sizeof_EntityPath cfg)])
      else decodeBinaryPath cfg raw)"

subsection \<open>The whole function (lines 111 to 218)\<close>

text \<open>
  The result is what the call returns (\<open>None\<close> is \<^verbatim>\<open>std::nullopt\<close>), what it logs and
  the two buffers as it leaves them.
\<close>

definition installPhysStringPath :: "config \<Rightarrow> string \<Rightarrow> globals \<Rightarrow> globals" where
  \<comment> \<open>lines 155 to 163: \<^verbatim>\<open>memset\<close>, then \<^verbatim>\<open>strncpy\<close>\<close>
  "installPhysStringPath cfg l g =
     (let g1 = g\<lparr>g_physStringPath := replicate (sizeof_physStringPath cfg) NUL\<rparr>
      in g1\<lparr>g_physStringPath :=
              strncpy (g_physStringPath g1) (c_str l) (sizeof_physStringPath cfg)\<rparr>)"

definition traverseAndDecode ::
  "config \<Rightarrow> target list \<Rightarrow> globals
     \<Rightarrow> failure + (EntityPath option \<times> diag list \<times> globals)" where
  \<comment> \<open>lines 165 to 217\<close>
  "traverseAndDecode cfg devtree g =
     fbind (pdbg_traverse (pdbgCallbackToGetPhysicaBinaryPath cfg) devtree g)
       (\<lambda>(ret, g').
          fbind (afterTraverse cfg ret (g_physBinaryPath g'))
            (\<lambda>(r, logged). Inr (r, logged, g')))"

definition getEntityPathFromDevTree ::
  "config \<Rightarrow> target list \<Rightarrow> string \<Rightarrow> globals
     \<Rightarrow> failure + (EntityPath option \<times> diag list \<times> globals)" where
  "getEntityPathFromDevTree cfg devtree physicalPath g =
     fbind (normalizePath physicalPath) (\<lambda>l.
       if size_t_sub (length l) 1 > sizeof_physStringPath cfg
       then Inr (None,
              [PhysPathSizeMismatch (sizeof_physStringPath cfg) (size_t_sub (length l) 1)],
              g)
       else traverseAndDecode cfg devtree (installPhysStringPath cfg l g))"

subsection \<open>Two calls on the same buffers\<close>

text \<open>What the caller of \<^verbatim>\<open>getEntityPathFromDevTree\<close> sees: the value returned and the log.\<close>

definition returnedAndLogged ::
  "failure + (EntityPath option \<times> diag list \<times> globals)
     \<Rightarrow> failure + (EntityPath option \<times> diag list)" where
  "returnedAndLogged res =
     (case res of Inl f \<Rightarrow> Inl f | Inr (r, logged, g) \<Rightarrow> Inr (r, logged))"

text \<open>
  Two calls that overlap.  Both have normalised their path (\<open>lA\<close> for the first call,
  \<open>lB\<close> for the second) and passed the length check of line 140; nothing up to there
  touches the two buffers.  The first call runs lines 155 to 163, then the second call
  runs lines 155 to 163, then the first call runs lines 165 to 217.  The result is that
  of the first call.
\<close>

definition overlappedFirstCall ::
  "config \<Rightarrow> target list \<Rightarrow> string \<Rightarrow> string \<Rightarrow> globals
     \<Rightarrow> failure + (EntityPath option \<times> diag list \<times> globals)" where
  "overlappedFirstCall cfg devtree lA lB g =
     traverseAndDecode cfg devtree
       (installPhysStringPath cfg lB (installPhysStringPath cfg lA g))"

subsection \<open>Concrete inputs for evaluation\<close>

text \<open>
  A configuration with a 64-byte string attribute and a 21-byte binary attribute, which
  is also the size of an \<^verbatim>\<open>EntityPath\<close> of ten elements; the two buffers as static
  storage starts, zeroed; and a small device tree.
\<close>

definition example_config :: config where
  "example_config =
     \<lparr>sizeof_physStringPath = 64, sizeof_physBinaryPath = 21,
      sizeof_EntityPath = 21, maxPathElements = 10\<rparr>"

definition zeroed_globals :: "config \<Rightarrow> globals" where
  "zeroed_globals cfg =
     \<lparr>g_physBinaryPath = replicate (sizeof_physBinaryPath cfg) 0,
      g_physStringPath = replicate (sizeof_physStringPath cfg) NUL\<rparr>"

definition dev_path_attr :: "config \<Rightarrow> string \<Rightarrow> char list" where
  \<comment> \<open>the string attribute buffer holding \<open>p\<close>, NUL-padded\<close>
  "dev_path_attr cfg p = p @ replicate (sizeof_physStringPath cfg - length p) NUL"

definition bin_path_attr :: "config \<Rightarrow> 8 word list \<Rightarrow> 8 word list" where
  \<comment> \<open>the binary attribute buffer holding \<open>bs\<close>, zero-padded\<close>
  "bin_path_attr cfg bs = bs @ replicate (sizeof_physBinaryPath cfg - length bs) 0"

definition example_devtree :: "config \<Rightarrow> target list" where
  "example_devtree cfg =
     [\<lparr>ATTR_PHYS_DEV_PATH = None, ATTR_PHYS_BIN_PATH = None\<rparr>,
      \<lparr>ATTR_PHYS_DEV_PATH = Some (dev_path_attr cfg ''physical:sys-0''),
       ATTR_PHYS_BIN_PATH = Some (bin_path_attr cfg [0x21, 0x01, 0x00])\<rparr>,
      \<lparr>ATTR_PHYS_DEV_PATH = Some (dev_path_attr cfg ''physical:sys-0/node-0''),
       ATTR_PHYS_BIN_PATH = Some (bin_path_attr cfg [0x22, 0x01, 0x00, 0x02, 0x00])\<rparr>,
      \<lparr>ATTR_PHYS_DEV_PATH = Some (dev_path_attr cfg ''physical:sys-0/node-0/proc-0''),
       ATTR_PHYS_BIN_PATH = None\<rparr>]"

text \<open>
  Two further configurations: one with eight path elements, and one in which the
  \<^verbatim>\<open>EntityPath\<close> is smaller than the binary attribute.
\<close>

definition config_max8 :: config where
  "config_max8 =
     \<lparr>sizeof_physStringPath = 64, sizeof_physBinaryPath = 17,
      sizeof_EntityPath = 17, maxPathElements = 8\<rparr>"

definition skewed_config :: config where
  "skewed_config =
     \<lparr>sizeof_physStringPath = 64, sizeof_physBinaryPath = 21,
      sizeof_EntityPath = 17, maxPathElements = 8\<rparr>"

section \<open>Lemmas\<close>

subsection \<open>Normalisation\<close>

lemma find_from_Some_length:
  "find_from s pat i = Some k \<Longrightarrow> length pat \<le> length s"
proof (induction s arbitrary: i)
  case Nil
  then show ?case by (simp split: if_splits)
next
  case (Cons c cs)
  show ?case
  proof (cases "prefix pat (c # cs)")
    case True
    then show ?thesis by (rule prefix_length_le)
  next
    case False
    with Cons.prems have "find_from cs pat (Suc i) = Some k" by simp
    then have "length pat \<le> length cs" by (rule Cons.IH)
    then show ?thesis by simp
  qed
qed

lemma find_from_prefix: "prefix pat s \<Longrightarrow> find_from s pat i = Some i"
  by (cases s) auto

lemma normalizePath_eq:
  "normalizePath x =
     Inr (let l0 = map tolower x;
              l1 = (if take 1 l0 = ''/'' then drop 1 l0 else l0)
          in if find_from l1 ''physical:'' 0 = None then ''physical:'' @ l1 else l1)"
  by (simp add: normalizePath_def fbind_def str_compare_is_0_def str_erase_def
      str_insert_def str_find_def Let_def)

lemma normalizePath_length:
  assumes "normalizePath x = Inr l"
  shows "9 \<le> length l"
proof -
  define l1 where
    "l1 = (if take 1 (map tolower x) = ''/'' then drop 1 (map tolower x) else map tolower x)"
  have l: "l = (if find_from l1 ''physical:'' 0 = None then ''physical:'' @ l1 else l1)"
    using assms unfolding normalizePath_eq l1_def Let_def by blast
  show ?thesis
  proof (cases "find_from l1 ''physical:'' 0")
    case None
    then show ?thesis using l by simp
  next
    case (Some k)
    then have "length ''physical:'' \<le> length l1" by (rule find_from_Some_length)
    then show ?thesis using l Some by simp
  qed
qed

lemma size_t_sub_1: "0 < n \<Longrightarrow> size_t_sub n 1 = n - 1"
  by (simp add: size_t_sub_def)

lemma tolower_idem: "tolower (tolower c) = tolower c"
  by (simp add: tolower_def Let_def)

lemma tolower_scheme: "map tolower ''physical:'' = ''physical:''"
  by code_simp

lemma normalizePath_idem_if_prefixed:
  assumes "normalizePath x = Inr y" and "prefix ''physical:'' y"
  shows "normalizePath y = Inr y"
proof -
  define l0 where "l0 = map tolower x"
  define l1 where "l1 = (if take 1 l0 = ''/'' then drop 1 l0 else l0)"
  have y: "y = (if find_from l1 ''physical:'' 0 = None then ''physical:'' @ l1 else l1)"
    using assms(1) unfolding normalizePath_eq l0_def l1_def Let_def by blast
  have "map tolower l0 = l0" by (simp add: l0_def tolower_idem)
  then have "map tolower l1 = l1"
    by (simp add: l1_def drop_map [symmetric])
  then have low: "map tolower y = y"
  proof (cases "find_from l1 ''physical:'' 0")
    case None
    have "map tolower (''physical:'' @ l1) = map tolower ''physical:'' @ map tolower l1"
      by (rule map_append)
    also have "\<dots> = ''physical:'' @ l1"
      using \<open>map tolower l1 = l1\<close> by (simp only: tolower_scheme)
    finally have "map tolower (''physical:'' @ l1) = ''physical:'' @ l1" .
    moreover have "y = ''physical:'' @ l1" using None y by (simp only: if_True refl)
    ultimately show ?thesis by (simp only:)
  next
    case (Some k)
    then show ?thesis using \<open>map tolower l1 = l1\<close> by (simp add: y)
  qed
  from assms(2) obtain z where z: "y = ''physical:'' @ z" by (auto simp: prefix_def)
  then have nosep: "take 1 y \<noteq> ''/''" by simp
  have found: "find_from y ''physical:'' 0 = Some 0"
    using assms(2) by (rule find_from_prefix)
  show ?thesis
    unfolding normalizePath_eq Let_def low using nosep found by simp
qed

lemma too_long_iff:
  assumes "normalizePath p = Inr l"
  shows "sizeof_physStringPath cfg < size_t_sub (length l) 1 \<longleftrightarrow>
         sizeof_physStringPath cfg + 2 \<le> length l"
proof -
  from normalizePath_length[OF assms] have "9 \<le> length l" .
  then show ?thesis by (auto simp: size_t_sub_def)
qed

subsection \<open>The decoding loop\<close>

lemma decode_loop_Inr:
  "decode_loop raw n i j e = Inr e' \<Longrightarrow> j = 1 + 2 * i \<Longrightarrow>
     type_size e' = type_size e \<and>
     length (pathElements e') = length (pathElements e) \<and>
     (\<forall>k. i \<le> k \<and> k < n \<longrightarrow>
        2 + 2 * k < length raw \<and> k < length (pathElements e) \<and>
        pathElements e' ! k = \<lparr>targetType = raw ! (1 + k * 2), instance' = raw ! (2 + k * 2)\<rparr>) \<and>
     (\<forall>k. k < i \<or> n \<le> k \<longrightarrow> pathElements e' ! k = pathElements e ! k)"
proof (induction raw n i j e rule: decode_loop.induct)
  case (1 raw n i j entityPath)
  show ?case
  proof (cases "i < n")
    case False
    with "1.prems"(1) have "e' = entityPath" by (subst (asm) decode_loop.simps) simp
    with False show ?thesis by auto
  next
    case True
    from True "1.prems"(1) obtain t v elems where
      rt: "read_at raw j = Inr t" and rv: "read_at raw (j + 1) = Inr v" and
      w: "write_at (pathElements entityPath) i \<lparr>targetType = t, instance' = v\<rparr> = Inr elems" and
      rec: "decode_loop raw n (i + 1) (j + sizeof_PathElement) (entityPath\<lparr>pathElements := elems\<rparr>) = Inr e'"
      by (subst (asm) decode_loop.simps) (auto split: sum.splits)
    have j2: "j + sizeof_PathElement = 1 + 2 * (i + 1)"
      using "1.prems"(2) by (simp add: sizeof_PathElement_def)
    note IH = "1.IH"[OF True rt rv w rec j2]
    from rt have tj: "j < length raw" "t = raw ! j"
      by (auto simp: read_at_def split: if_splits)
    from rv have vj: "j + 1 < length raw" "v = raw ! (j + 1)"
      by (auto simp: read_at_def split: if_splits)
    from w have wi: "i < length (pathElements entityPath)"
      "elems = (pathElements entityPath)[i := \<lparr>targetType = t, instance' = v\<rparr>]"
      by (auto simp: write_at_def split: if_splits)
    show ?thesis
    proof (intro conjI allI impI)
      show "type_size e' = type_size entityPath" using IH by simp
      show "length (pathElements e') = length (pathElements entityPath)" using IH wi by simp
    next
      fix k assume k: "i \<le> k \<and> k < n"
      show "2 + 2 * k < length raw"
      proof (cases "k = i")
        case True then show ?thesis using vj "1.prems"(2) by simp
      next
        case False then show ?thesis using IH k by simp
      qed
      show "k < length (pathElements entityPath)"
      proof (cases "k = i")
        case True then show ?thesis using wi by simp
      next
        case False then show ?thesis using IH k wi by simp
      qed
      show "pathElements e' ! k = \<lparr>targetType = raw ! (1 + k * 2), instance' = raw ! (2 + k * 2)\<rparr>"
      proof (cases "k = i")
        case True
        have "pathElements e' ! i = elems ! i" using IH by simp
        also have "\<dots> = \<lparr>targetType = t, instance' = v\<rparr>" using wi by simp
        finally show ?thesis using True tj vj "1.prems"(2) by (simp add: mult.commute)
      next
        case False then show ?thesis using IH k by simp
      qed
    next
      fix k assume k: "k < i \<or> n \<le> k"
      then have "k \<noteq> i" using True by auto
      moreover have "pathElements e' ! k = elems ! k" using IH k by auto
      ultimately show "pathElements e' ! k = pathElements entityPath ! k" using wi by simp
    qed
  qed
qed

lemma decode_loop_total:
  "n \<le> length (pathElements e) \<Longrightarrow> 1 + 2 * n \<le> length raw \<Longrightarrow> j = 1 + 2 * i \<Longrightarrow>
     \<exists>e'. decode_loop raw n i j e = Inr e'"
proof (induction raw n i j e rule: decode_loop.induct)
  case (1 raw n i j entityPath)
  show ?case
  proof (cases "i < n")
    case False
    then show ?thesis by (subst decode_loop.simps) simp
  next
    case True
    have rt: "read_at raw j = Inr (raw ! j)"
      using True "1.prems" by (simp add: read_at_def)
    have rv: "read_at raw (j + 1) = Inr (raw ! (j + 1))"
      using True "1.prems" by (simp add: read_at_def)
    define elems where
      "elems = (pathElements entityPath)[i := \<lparr>targetType = raw ! j, instance' = raw ! (j + 1)\<rparr>]"
    have w: "write_at (pathElements entityPath) i \<lparr>targetType = raw ! j, instance' = raw ! (j + 1)\<rparr> = Inr elems"
      using True "1.prems" by (simp add: write_at_def elems_def)
    have "\<exists>e'. decode_loop raw n (i + 1) (j + sizeof_PathElement) (entityPath\<lparr>pathElements := elems\<rparr>) = Inr e'"
      using "1.prems" by (intro "1.IH"[OF True rt rv w]) (simp_all add: elems_def sizeof_PathElement_def)
    then show ?thesis
      using True rt rv w by (subst decode_loop.simps) simp
  qed
qed

subsection \<open>The decoder and the traversal\<close>

lemma decodeBinaryPath_Some:
  assumes "decodeBinaryPath cfg raw = Inr (Some e, logged)"
  shows "logged = [] \<and> 1 + 2 * unat (raw ! 0 AND 0x0F) \<le> length raw \<and>
         unat (raw ! 0 AND 0x0F) \<le> maxPathElements cfg \<and>
         type_size e = raw ! 0 \<and> length (pathElements e) = maxPathElements cfg \<and>
         (\<forall>i < unat (raw ! 0 AND 0x0F).
            pathElements e ! i = \<lparr>targetType = raw ! (1 + i * 2), instance' = raw ! (2 + i * 2)\<rparr>)"
proof -
  define n where "n = unat (raw ! 0 AND 0x0F)"
  define e0 where "e0 = (defaultEntityPath cfg)\<lparr>type_size := raw ! 0\<rparr>"
  from assms have r0: "0 < length raw"
    by (auto simp: decodeBinaryPath_def fbind_def read_at_def split: if_splits)
  with assms have le: "n \<le> maxPathElements cfg" and
    loop: "decode_loop raw n 0 1 e0 = Inr e" and lg: "logged = []"
    by (auto simp: decodeBinaryPath_def fbind_def read_at_def Let_def n_def e0_def
        split: if_splits sum.splits)
  from decode_loop_Inr[OF loop] have
    ts: "type_size e = type_size e0" and
    len: "length (pathElements e) = length (pathElements e0)" and
    el: "\<forall>k. 0 \<le> k \<and> k < n \<longrightarrow> 2 + 2 * k < length raw \<and>
          pathElements e ! k = \<lparr>targetType = raw ! (1 + k * 2), instance' = raw ! (2 + k * 2)\<rparr>"
    by simp_all
  have bound: "1 + 2 * n \<le> length raw"
  proof (cases n)
    case 0 then show ?thesis using r0 by (simp add: Suc_leI)
  next
    case (Suc m)
    then have "2 + 2 * m < length raw" using el by simp
    then show ?thesis using Suc by simp
  qed
  show ?thesis
    using lg bound le ts len el
    by (simp add: n_def [symmetric] e0_def defaultEntityPath_def)
qed

lemma decodeBinaryPath_ok:
  assumes "1 + 2 * k \<le> length raw" "unat (raw ! 0 AND 0x0F) = k" "k \<le> maxPathElements cfg"
  shows "\<exists>e. decodeBinaryPath cfg raw = Inr (Some e, [])"
proof -
  define e0 where "e0 = (defaultEntityPath cfg)\<lparr>type_size := raw ! 0\<rparr>"
  have "k \<le> length (pathElements e0)"
    using assms(3) by (simp add: e0_def defaultEntityPath_def)
  from decode_loop_total[OF this assms(1), of 1 0]
  obtain e where "decode_loop raw k 0 1 e0 = Inr e" by auto
  moreover have "0 < length raw" using assms(1) by linarith
  ultimately show ?thesis
    using assms by (simp add: decodeBinaryPath_def fbind_def read_at_def Let_def e0_def)
qed

lemma decodeBinaryPath_overflow:
  assumes "raw \<noteq> []" "maxPathElements cfg < unat (raw ! 0 AND 0x0F)"
  shows "decodeBinaryPath cfg raw =
           Inr (None, [PathElementsSizeMismatch (unat (raw ! 0 AND 0x0F)) (maxPathElements cfg)])"
  using assms by (simp add: decodeBinaryPath_def fbind_def read_at_def Let_def)

lemma low_nibble: "unat ((b :: 8 word) AND 0x0F) = unat b mod 16"
proof -
  have "b AND 0x0F = take_bit 4 b"
    by (simp add: take_bit_eq_mask mask_eq_exp_minus_1)
  then have "unat (b AND 0x0F) = take_bit 4 (unat b)"
    by (simp add: unsigned_take_bit_eq)
  then show ?thesis by (simp add: take_bit_eq_mod)
qed

lemma callback_continue:
  "pdbgCallbackToGetPhysicaBinaryPath cfg t g = Inr (rc, g') \<Longrightarrow> rc = 0 \<Longrightarrow> g' = g"
  by (auto simp: pdbgCallbackToGetPhysicaBinaryPath_def fbind_def Let_def
      continueTgtTraversal_def requireAttrFound_def requireAttrNotFound_def
      split: option.splits sum.splits if_splits)

lemma callback_found:
  "pdbgCallbackToGetPhysicaBinaryPath cfg t g = Inr (rc, g') \<Longrightarrow> rc \<noteq> 0 \<Longrightarrow>
     rc \<noteq> requireAttrNotFound \<Longrightarrow>
     rc = requireAttrFound \<and> g_physStringPath g' = g_physStringPath g \<and>
     ATTR_PHYS_BIN_PATH t = Some (g_physBinaryPath g') \<and>
     (\<exists>p. ATTR_PHYS_DEV_PATH t = Some p \<and> strcmp_is_0 (g_physStringPath g) p = Inr True)"
  by (auto simp: pdbgCallbackToGetPhysicaBinaryPath_def fbind_def Let_def
      continueTgtTraversal_def requireAttrFound_def requireAttrNotFound_def
      split: option.splits sum.splits if_splits)

lemma traverse_found:
  "pdbg_traverse (pdbgCallbackToGetPhysicaBinaryPath cfg) ts g = Inr (rc, g') \<Longrightarrow>
     rc \<noteq> 0 \<Longrightarrow> rc \<noteq> requireAttrNotFound \<Longrightarrow>
     rc = requireAttrFound \<and> g_physStringPath g' = g_physStringPath g \<and>
     (\<exists>t p. t \<in> set ts \<and> ATTR_PHYS_BIN_PATH t = Some (g_physBinaryPath g') \<and>
        ATTR_PHYS_DEV_PATH t = Some p \<and> strcmp_is_0 (g_physStringPath g) p = Inr True)"
proof (induction ts arbitrary: g)
  case Nil
  then show ?case by simp
next
  case (Cons t ts)
  from Cons.prems(1) obtain rc1 g1 where
    cb: "pdbgCallbackToGetPhysicaBinaryPath cfg t g = Inr (rc1, g1)"
    by (auto split: sum.splits)
  show ?case
  proof (cases "rc1 = 0")
    case True
    then have g1: "g1 = g" using cb by (rule callback_continue[rotated])
    with True cb Cons.prems(1) have
      "pdbg_traverse (pdbgCallbackToGetPhysicaBinaryPath cfg) ts g = Inr (rc, g')" by simp
    from Cons.IH[OF this Cons.prems(2,3)] show ?thesis by auto
  next
    case False
    with cb Cons.prems(1) have "rc1 = rc" "g1 = g'" by simp_all
    with cb have "pdbgCallbackToGetPhysicaBinaryPath cfg t g = Inr (rc, g')" by simp
    from callback_found[OF this Cons.prems(2,3)] show ?thesis by auto
  qed
qed

subsection \<open>Calls on the same buffers\<close>

lemma install_string:
  "g_physStringPath (installPhysStringPath cfg l g) =
     strncpy (replicate (sizeof_physStringPath cfg) NUL) (c_str l) (sizeof_physStringPath cfg)"
  by (simp add: installPhysStringPath_def Let_def)

lemma install_binary:
  "g_physBinaryPath (installPhysStringPath cfg l g) = g_physBinaryPath g"
  by (simp add: installPhysStringPath_def Let_def)

lemma callback_same_target:
  assumes "g_physStringPath g = g_physStringPath h"
  shows "(\<exists>f. pdbgCallbackToGetPhysicaBinaryPath cfg t g = Inl f \<and>
              pdbgCallbackToGetPhysicaBinaryPath cfg t h = Inl f) \<or>
         (pdbgCallbackToGetPhysicaBinaryPath cfg t g = Inr (0, g) \<and>
          pdbgCallbackToGetPhysicaBinaryPath cfg t h = Inr (0, h)) \<or>
         (\<exists>rc g' h'. rc \<noteq> 0 \<and>
            pdbgCallbackToGetPhysicaBinaryPath cfg t g = Inr (rc, g') \<and>
            pdbgCallbackToGetPhysicaBinaryPath cfg t h = Inr (rc, h') \<and>
            g_physBinaryPath g' = g_physBinaryPath h')"
proof (cases "ATTR_PHYS_DEV_PATH t")
  case None
  then show ?thesis
    by (simp add: pdbgCallbackToGetPhysicaBinaryPath_def continueTgtTraversal_def)
next
  case (Some q)
  show ?thesis
  proof (cases "strcmp_is_0 (g_physStringPath h) q")
    case (Inl f)
    with Some assms show ?thesis
      by (simp add: pdbgCallbackToGetPhysicaBinaryPath_def fbind_def)
  next
    case (Inr same)
    show ?thesis
    proof (cases same)
      case False
      with Inr Some assms show ?thesis
        by (simp add: pdbgCallbackToGetPhysicaBinaryPath_def fbind_def continueTgtTraversal_def)
    next
      case True
      with Inr Some assms show ?thesis
        by (cases "ATTR_PHYS_BIN_PATH t")
          (simp_all add: pdbgCallbackToGetPhysicaBinaryPath_def fbind_def Let_def
            requireAttrFound_def requireAttrNotFound_def)
    qed
  qed
qed

lemma traverse_same_target:
  assumes "g_physStringPath g = g_physStringPath h"
  shows "(\<exists>f. pdbg_traverse (pdbgCallbackToGetPhysicaBinaryPath cfg) ts g = Inl f \<and>
              pdbg_traverse (pdbgCallbackToGetPhysicaBinaryPath cfg) ts h = Inl f) \<or>
         (pdbg_traverse (pdbgCallbackToGetPhysicaBinaryPath cfg) ts g = Inr (0, g) \<and>
          pdbg_traverse (pdbgCallbackToGetPhysicaBinaryPath cfg) ts h = Inr (0, h)) \<or>
         (\<exists>rc g' h'. rc \<noteq> 0 \<and>
            pdbg_traverse (pdbgCallbackToGetPhysicaBinaryPath cfg) ts g = Inr (rc, g') \<and>
            pdbg_traverse (pdbgCallbackToGetPhysicaBinaryPath cfg) ts h = Inr (rc, h') \<and>
            g_physBinaryPath g' = g_physBinaryPath h')"
proof (induction ts)
  case Nil
  then show ?case by simp
next
  case (Cons t ts)
  from callback_same_target[OF assms, of cfg t] show ?case
  proof (elim disjE exE conjE)
    fix f
    assume "pdbgCallbackToGetPhysicaBinaryPath cfg t g = Inl f"
      "pdbgCallbackToGetPhysicaBinaryPath cfg t h = Inl f"
    then show ?thesis by simp
  next
    assume "pdbgCallbackToGetPhysicaBinaryPath cfg t g = Inr (0, g)"
      "pdbgCallbackToGetPhysicaBinaryPath cfg t h = Inr (0, h)"
    then show ?thesis using Cons.IH by simp
  next
    fix rc g' h'
    assume "rc \<noteq> 0" "pdbgCallbackToGetPhysicaBinaryPath cfg t g = Inr (rc, g')"
      "pdbgCallbackToGetPhysicaBinaryPath cfg t h = Inr (rc, h')"
      "g_physBinaryPath g' = g_physBinaryPath h'"
    then show ?thesis by simp
  qed
qed

lemma traverseAndDecode_same_target:
  assumes "g_physStringPath g = g_physStringPath h"
  shows "returnedAndLogged (traverseAndDecode cfg devtree g) =
         returnedAndLogged (traverseAndDecode cfg devtree h)"
proof -
  from traverse_same_target[OF assms, of cfg devtree] show ?thesis
  proof (elim disjE exE conjE)
    fix f
    assume "pdbg_traverse (pdbgCallbackToGetPhysicaBinaryPath cfg) devtree g = Inl f"
      "pdbg_traverse (pdbgCallbackToGetPhysicaBinaryPath cfg) devtree h = Inl f"
    then show ?thesis by (simp add: traverseAndDecode_def fbind_def)
  next
    assume "pdbg_traverse (pdbgCallbackToGetPhysicaBinaryPath cfg) devtree g = Inr (0, g)"
      "pdbg_traverse (pdbgCallbackToGetPhysicaBinaryPath cfg) devtree h = Inr (0, h)"
    then show ?thesis
      by (simp add: traverseAndDecode_def fbind_def afterTraverse_def returnedAndLogged_def)
  next
    fix rc g' h'
    assume "rc \<noteq> 0"
      "pdbg_traverse (pdbgCallbackToGetPhysicaBinaryPath cfg) devtree g = Inr (rc, g')"
      "pdbg_traverse (pdbgCallbackToGetPhysicaBinaryPath cfg) devtree h = Inr (rc, h')"
      "g_physBinaryPath g' = g_physBinaryPath h'"
    then show ?thesis
      by (cases "afterTraverse cfg rc (g_physBinaryPath h')")
        (auto simp: traverseAndDecode_def fbind_def returnedAndLogged_def)
  qed
qed

subsection \<open>The shape of every result\<close>

lemma getEntityPathFromDevTree_traversed:
  assumes "normalizePath p = Inr l"
    and "\<not> sizeof_physStringPath cfg < size_t_sub (length l) 1"
    and "pdbg_traverse (pdbgCallbackToGetPhysicaBinaryPath cfg) devtree
           (installPhysStringPath cfg l g) = Inr (ret, g')"
  shows "getEntityPathFromDevTree cfg devtree p g =
           fbind (afterTraverse cfg ret (g_physBinaryPath g'))
             (\<lambda>(r, logged). Inr (r, logged, g'))"
  using assms by (simp add: getEntityPathFromDevTree_def traverseAndDecode_def fbind_def)

lemma getEntityPathFromDevTree_Inr:
  assumes "getEntityPathFromDevTree cfg devtree p g = Inr (r, logged, g')"
  shows "(\<exists>l. normalizePath p = Inr l \<and> sizeof_physStringPath cfg < size_t_sub (length l) 1 \<and>
            r = None \<and> g' = g \<and>
            logged = [PhysPathSizeMismatch (sizeof_physStringPath cfg) (size_t_sub (length l) 1)]) \<or>
         (\<exists>l ret. normalizePath p = Inr l \<and>
            \<not> sizeof_physStringPath cfg < size_t_sub (length l) 1 \<and>
            pdbg_traverse (pdbgCallbackToGetPhysicaBinaryPath cfg) devtree
              (installPhysStringPath cfg l g) = Inr (ret, g') \<and>
            afterTraverse cfg ret (g_physBinaryPath g') = Inr (r, logged))"
  using assms
  by (auto simp: getEntityPathFromDevTree_def traverseAndDecode_def fbind_def
      split: sum.splits if_splits prod.splits)

lemma afterTraverse_Inr:
  assumes "afterTraverse cfg ret raw = Inr (r, logged)"
  shows "(ret = 0 \<and> r = None \<and> logged = [PhysPathNotFound]) \<or>
         (ret \<noteq> 0 \<and> ret = requireAttrNotFound \<and> r = None \<and> logged = [BinaryValueNotFound]) \<or>
         (ret \<noteq> 0 \<and> ret \<noteq> requireAttrNotFound \<and>
            sizeof_EntityPath cfg < sizeof_physBinaryPath cfg \<and> r = None \<and>
            logged = [BinarySizeMismatch (sizeof_physBinaryPath cfg) (sizeof_EntityPath cfg)]) \<or>
         (ret \<noteq> 0 \<and> ret \<noteq> requireAttrNotFound \<and>
            \<not> sizeof_EntityPath cfg < sizeof_physBinaryPath cfg \<and>
            decodeBinaryPath cfg raw = Inr (r, logged))"
  using assms by (auto simp: afterTraverse_def split: if_splits)

lemma decodeBinaryPath_None:
  assumes "decodeBinaryPath cfg raw = Inr (None, logged)"
  shows "logged = [PathElementsSizeMismatch (unat (raw ! 0 AND 0x0F)) (maxPathElements cfg)]"
  using assms
  by (auto simp: decodeBinaryPath_def fbind_def read_at_def Let_def split: if_splits sum.splits)

lemma absent_iff_logged:
  assumes "getEntityPathFromDevTree cfg devtree p g = Inr (r, logged, g')"
  shows "logged \<noteq> [] \<longleftrightarrow> r = None"
proof -
  from getEntityPathFromDevTree_Inr[OF assms] show ?thesis
  proof (elim disjE exE conjE)
    fix l assume "r = None" "logged = [PhysPathSizeMismatch (sizeof_physStringPath cfg) (size_t_sub (length l) 1)]"
    then show ?thesis by simp
  next
    fix l ret
    assume at: "afterTraverse cfg ret (g_physBinaryPath g') = Inr (r, logged)"
    from afterTraverse_Inr[OF at] show ?thesis
    proof (elim disjE conjE)
      assume d: "decodeBinaryPath cfg (g_physBinaryPath g') = Inr (r, logged)"
      show ?thesis
      proof (cases r)
        case None
        with d decodeBinaryPath_None show ?thesis by fastforce
      next
        case (Some e)
        with d decodeBinaryPath_Some show ?thesis by fastforce
      qed
    qed simp_all
  qed
qed

section \<open>The claims\<close>

text \<open>
  C1: for a raw buffer whose first byte has low nibble \<open>k\<close> with \<open>k\<close> at most
  \<open>maxPathElements\<close>, and which holds the \<open>1 + 2 * k\<close> bytes at the offsets named,
  decoding yields an \<open>EntityPath\<close> whose \<open>type_size\<close> is byte 0 and whose first \<open>k\<close>
  elements are the pairs at offsets \<open>1 + i * 2\<close> and \<open>2 + i * 2\<close>.  Hence a call whose
  traversal found the binary attribute, with sizes that agree and such a count, returns
  an \<open>EntityPath\<close> that mirrors the binary buffer; and every \<open>EntityPath\<close> that a call
  returns mirrors the binary buffer, which is then the binary attribute of a target of
  the device tree.
\<close>

theorem C1_decode_mirrors_raw:
  "(1 + 2 * k \<le> length raw \<and> unat (raw ! 0 AND 0x0F) = k \<and> k \<le> maxPathElements cfg \<longrightarrow>
      (\<exists>e. decodeBinaryPath cfg raw = Inr (Some e, []) \<and>
           type_size e = raw ! 0 \<and>
           (\<forall>i<k. pathElements e ! i =
                     \<lparr>targetType = raw ! (1 + i * 2), instance' = raw ! (2 + i * 2)\<rparr>))) \<and>
   (normalizePath p = Inr l \<and> \<not> sizeof_physStringPath cfg < size_t_sub (length l) 1 \<and>
    pdbg_traverse (pdbgCallbackToGetPhysicaBinaryPath cfg) devtree
      (installPhysStringPath cfg l g) = Inr (requireAttrFound, g1) \<and>
    \<not> sizeof_EntityPath cfg < sizeof_physBinaryPath cfg \<and>
    1 + 2 * n \<le> length (g_physBinaryPath g1) \<and>
    unat (g_physBinaryPath g1 ! 0 AND 0x0F) = n \<and> n \<le> maxPathElements cfg \<longrightarrow>
      (\<exists>e. getEntityPathFromDevTree cfg devtree p g = Inr (Some e, [], g1) \<and>
           type_size e = g_physBinaryPath g1 ! 0 \<and>
           (\<forall>i<n. pathElements e ! i =
                     \<lparr>targetType = g_physBinaryPath g1 ! (1 + i * 2),
                      instance' = g_physBinaryPath g1 ! (2 + i * 2)\<rparr>))) \<and>
   (getEntityPathFromDevTree cfg devtree p g = Inr (Some e', logged, g') \<longrightarrow>
      (\<exists>t. t \<in> set devtree \<and> ATTR_PHYS_BIN_PATH t = Some (g_physBinaryPath g')) \<and>
      1 + 2 * unat (type_size e' AND 0x0F) \<le> length (g_physBinaryPath g') \<and>
      type_size e' = g_physBinaryPath g' ! 0 \<and>
      (\<forall>i<unat (type_size e' AND 0x0F).
         pathElements e' ! i =
           \<lparr>targetType = g_physBinaryPath g' ! (1 + i * 2),
            instance' = g_physBinaryPath g' ! (2 + i * 2)\<rparr>))"
proof -
  have decode: "\<exists>e. decodeBinaryPath c b = Inr (Some e, []) \<and> type_size e = b ! 0 \<and>
          (\<forall>i<m. pathElements e ! i =
                    \<lparr>targetType = b ! (1 + i * 2), instance' = b ! (2 + i * 2)\<rparr>)"
    if h: "1 + 2 * m \<le> length b \<and> unat (b ! 0 AND 0x0F) = m \<and> m \<le> maxPathElements c"
    for c b m
  proof -
    from h obtain e where e: "decodeBinaryPath c b = Inr (Some e, [])"
      using decodeBinaryPath_ok by blast
    from decodeBinaryPath_Some[OF e] h e show ?thesis by auto
  qed
  have first: "1 + 2 * k \<le> length raw \<and> unat (raw ! 0 AND 0x0F) = k \<and>
      k \<le> maxPathElements cfg \<longrightarrow>
      (\<exists>e. decodeBinaryPath cfg raw = Inr (Some e, []) \<and> type_size e = raw ! 0 \<and>
           (\<forall>i<k. pathElements e ! i =
                     \<lparr>targetType = raw ! (1 + i * 2), instance' = raw ! (2 + i * 2)\<rparr>))"
    using decode by blast
  have second: "\<exists>e. getEntityPathFromDevTree cfg devtree p g = Inr (Some e, [], g1) \<and>
           type_size e = g_physBinaryPath g1 ! 0 \<and>
           (\<forall>i<n. pathElements e ! i =
                     \<lparr>targetType = g_physBinaryPath g1 ! (1 + i * 2),
                      instance' = g_physBinaryPath g1 ! (2 + i * 2)\<rparr>)"
    if h: "normalizePath p = Inr l \<and> \<not> sizeof_physStringPath cfg < size_t_sub (length l) 1 \<and>
      pdbg_traverse (pdbgCallbackToGetPhysicaBinaryPath cfg) devtree
        (installPhysStringPath cfg l g) = Inr (requireAttrFound, g1) \<and>
      \<not> sizeof_EntityPath cfg < sizeof_physBinaryPath cfg \<and>
      1 + 2 * n \<le> length (g_physBinaryPath g1) \<and>
      unat (g_physBinaryPath g1 ! 0 AND 0x0F) = n \<and> n \<le> maxPathElements cfg"
  proof -
    from h have u: "getEntityPathFromDevTree cfg devtree p g =
           fbind (afterTraverse cfg requireAttrFound (g_physBinaryPath g1))
             (\<lambda>(r, logged). Inr (r, logged, g1))"
      using getEntityPathFromDevTree_traversed[of p l cfg devtree g requireAttrFound g1] by blast
    from h have a: "afterTraverse cfg requireAttrFound (g_physBinaryPath g1) =
                      decodeBinaryPath cfg (g_physBinaryPath g1)"
      by (simp add: afterTraverse_def requireAttrFound_def requireAttrNotFound_def)
    from h decode[of n "g_physBinaryPath g1" cfg] obtain e where
      e: "decodeBinaryPath cfg (g_physBinaryPath g1) = Inr (Some e, [])"
        "type_size e = g_physBinaryPath g1 ! 0"
        "\<forall>i<n. pathElements e ! i =
                  \<lparr>targetType = g_physBinaryPath g1 ! (1 + i * 2),
                   instance' = g_physBinaryPath g1 ! (2 + i * 2)\<rparr>"
      by blast
    have "getEntityPathFromDevTree cfg devtree p g = Inr (Some e, [], g1)"
      by (simp add: u a e(1) fbind_def)
    with e(2,3) show ?thesis by blast
  qed
  have third: "(\<exists>t. t \<in> set devtree \<and> ATTR_PHYS_BIN_PATH t = Some (g_physBinaryPath g')) \<and>
      1 + 2 * unat (type_size e' AND 0x0F) \<le> length (g_physBinaryPath g') \<and>
      type_size e' = g_physBinaryPath g' ! 0 \<and>
      (\<forall>i<unat (type_size e' AND 0x0F).
         pathElements e' ! i =
           \<lparr>targetType = g_physBinaryPath g' ! (1 + i * 2),
            instance' = g_physBinaryPath g' ! (2 + i * 2)\<rparr>)"
    if r: "getEntityPathFromDevTree cfg devtree p g = Inr (Some e', logged, g')"
  proof -
    from getEntityPathFromDevTree_Inr[OF r] obtain l' ret where
      tr: "pdbg_traverse (pdbgCallbackToGetPhysicaBinaryPath cfg) devtree
             (installPhysStringPath cfg l' g) = Inr (ret, g')" and
      at: "afterTraverse cfg ret (g_physBinaryPath g') = Inr (Some e', logged)"
      by auto
    from afterTraverse_Inr[OF at] have
      ret: "ret \<noteq> 0" "ret \<noteq> requireAttrNotFound" and
      d: "decodeBinaryPath cfg (g_physBinaryPath g') = Inr (Some e', logged)"
      by auto
    note m = decodeBinaryPath_Some[OF d]
    from traverse_found[OF tr ret]
    have "\<exists>t. t \<in> set devtree \<and> ATTR_PHYS_BIN_PATH t = Some (g_physBinaryPath g')" by blast
    with m show ?thesis by simp
  qed
  from first second third show ?thesis by blast
qed

theorem C1_witness:
  "(1 + 2 * 2 \<le> length (bin_path_attr example_config [0x22, 0x01, 0x00, 0x02, 0x00]) \<and>
    unat (bin_path_attr example_config [0x22, 0x01, 0x00, 0x02, 0x00] ! 0 AND 0x0F) = 2 \<and>
    2 \<le> maxPathElements example_config) \<and>
   (\<exists>e. decodeBinaryPath example_config (bin_path_attr example_config [0x22, 0x01, 0x00, 0x02, 0x00])
          = Inr (Some e, []) \<and>
        type_size e = 0x22 \<and>
        pathElements e ! 0 = \<lparr>targetType = 0x01, instance' = 0x00\<rparr> \<and>
        pathElements e ! 1 = \<lparr>targetType = 0x02, instance' = 0x00\<rparr>) \<and>
   (\<exists>e. getEntityPathFromDevTree example_config (example_devtree example_config) ''/SYS-0/Node-0''
          (zeroed_globals example_config) =
        Inr (Some e, [],
          \<lparr>g_physBinaryPath = bin_path_attr example_config [0x22, 0x01, 0x00, 0x02, 0x00],
           g_physStringPath = dev_path_attr example_config ''physical:sys-0/node-0''\<rparr>) \<and>
        type_size e = 0x22 \<and>
        pathElements e ! 0 = \<lparr>targetType = 0x01, instance' = 0x00\<rparr> \<and>
        pathElements e ! 1 = \<lparr>targetType = 0x02, instance' = 0x00\<rparr>) \<and>
   (\<exists>t. t \<in> set (example_devtree example_config) \<and>
        ATTR_PHYS_BIN_PATH t =
          Some (bin_path_attr example_config [0x22, 0x01, 0x00, 0x02, 0x00]))"
proof -
  let ?cfg = example_config and ?dt = "example_devtree example_config"
  let ?g = "zeroed_globals example_config" and ?p = "''/SYS-0/Node-0''"
  let ?l = "''physical:sys-0/node-0''"
  define raw where "raw = bin_path_attr example_config [0x22, 0x01, 0x00, 0x02, 0x00]"
  define g1 where "g1 = \<lparr>g_physBinaryPath = raw, g_physStringPath = dev_path_attr ?cfg ?l\<rparr>"
  define e1 where "e1 = \<lparr>type_size = 0x22,
      pathElements = \<lparr>targetType = 1, instance' = 0\<rparr> # \<lparr>targetType = 2, instance' = 0\<rparr> #
        replicate 8 \<lparr>targetType = 0, instance' = 0\<rparr>\<rparr>"
  have raw: "raw = [0x22, 0x01, 0x00, 0x02, 0x00] @ replicate 16 0"
    by (simp add: raw_def bin_path_attr_def example_config_def)
  have h1: "1 + 2 * 2 \<le> length raw \<and> unat (raw ! 0 AND 0x0F) = 2 \<and>
            2 \<le> maxPathElements ?cfg"
    by (simp add: raw example_config_def)
  have n: "normalizePath ?p = Inr ?l" by code_simp
  have s: "\<not> sizeof_physStringPath ?cfg < size_t_sub (length ?l) 1"
    by (simp add: example_config_def size_t_sub_def)
  have t: "pdbg_traverse (pdbgCallbackToGetPhysicaBinaryPath ?cfg) ?dt
             (installPhysStringPath ?cfg ?l ?g) = Inr (requireAttrFound, g1)"
    unfolding g1_def raw_def by code_simp
  have z: "\<not> sizeof_EntityPath ?cfg < sizeof_physBinaryPath ?cfg"
    by (simp add: example_config_def)
  have b: "1 + 2 * 2 \<le> length (g_physBinaryPath g1) \<and>
           unat (g_physBinaryPath g1 ! 0 AND 0x0F) = 2 \<and> 2 \<le> maxPathElements ?cfg"
    using h1 by (simp add: g1_def)
  have h3: "getEntityPathFromDevTree ?cfg ?dt ?p ?g = Inr (Some e1, [], g1)"
    unfolding g1_def raw_def e1_def by code_simp
  note inst = C1_decode_mirrors_raw[of 2 raw ?cfg ?p ?l ?dt ?g g1 2 e1 "[]" g1]
  from inst h1 obtain e where
    e: "decodeBinaryPath ?cfg raw = Inr (Some e, [])" "type_size e = raw ! 0"
      "\<forall>i<2. pathElements e ! i =
                \<lparr>targetType = raw ! (1 + i * 2), instance' = raw ! (2 + i * 2)\<rparr>"
    by blast
  from e(3) have el: "pathElements e ! 0 = \<lparr>targetType = 0x01, instance' = 0x00\<rparr>"
    "pathElements e ! 1 = \<lparr>targetType = 0x02, instance' = 0x00\<rparr>"
    by (simp_all add: raw numeral_2_eq_2 less_Suc_eq all_conj_distrib)
  have ts: "type_size e = 0x22" using e(2) by (simp add: raw)
  from inst n s t z b obtain r where
    r: "getEntityPathFromDevTree ?cfg ?dt ?p ?g = Inr (Some r, [], g1)"
      "type_size r = g_physBinaryPath g1 ! 0"
      "\<forall>i<2. pathElements r ! i =
                \<lparr>targetType = g_physBinaryPath g1 ! (1 + i * 2),
                 instance' = g_physBinaryPath g1 ! (2 + i * 2)\<rparr>"
    by blast
  from r(3) have rel: "pathElements r ! 0 = \<lparr>targetType = 0x01, instance' = 0x00\<rparr>"
    "pathElements r ! 1 = \<lparr>targetType = 0x02, instance' = 0x00\<rparr>"
    by (simp_all add: g1_def raw numeral_2_eq_2 less_Suc_eq all_conj_distrib)
  have rts: "type_size r = 0x22" using r(2) by (simp add: g1_def raw)
  from inst h3 have tg: "\<exists>t. t \<in> set ?dt \<and> ATTR_PHYS_BIN_PATH t = Some (g_physBinaryPath g1)"
    by blast
  then have tg': "\<exists>t. t \<in> set ?dt \<and> ATTR_PHYS_BIN_PATH t = Some raw"
    by (simp add: g1_def)
  show ?thesis
    using h1 e(1) ts el r(1) rts rel tg' unfolding raw_def g1_def by blast
qed

text \<open>
  C2: an input whose normalised form is as long as the string buffer (so that it does not
  fit with its terminator) should be rejected before the traversal.  The check of line 140
  subtracts one from the length instead of adding one: with a 64-byte buffer, a normalised
  path of 64 characters passes the check, is copied without a terminator, and the device
  tree is traversed; the diagnostic is the one of a path that was not found.
\<close>

theorem C2_capacity_length_is_traversed:
  "normalizePath (replicate 55 (CHR ''a'')) = Inr (''physical:'' @ replicate 55 (CHR ''a'')) \<and>
   length (''physical:'' @ replicate 55 (CHR ''a'')) = sizeof_physStringPath example_config \<and>
   getEntityPathFromDevTree example_config (example_devtree example_config)
       (replicate 55 (CHR ''a'')) (zeroed_globals example_config) =
     Inr (None, [PhysPathNotFound],
          \<lparr>g_physBinaryPath = replicate 21 0,
           g_physStringPath = ''physical:'' @ replicate 55 (CHR ''a'')\<rparr>)"
  by code_simp

text \<open>
  C3: the scheme token should be prepended whenever the lower-cased, stripped string does
  not begin with it.  The test of line 135 searches the whole string: a path that holds
  \<open>physical:\<close> after its start is returned without the prefix.
\<close>

theorem C3_find_is_not_a_prefix_test:
  "normalizePath ''sys-0/physical:node-0'' = Inr ''sys-0/physical:node-0'' \<and>
   \<not> prefix ''physical:'' ''sys-0/physical:node-0''"
  by code_simp

text \<open>
  C4: the call returns \<open>None\<close> exactly when it logs a diagnostic, so every failure kind
  gives the same absent value; the kinds differ in the diagnostic only.  When the traversal
  returns 0 the diagnostic is \<open>PhysPathNotFound\<close>, when it returns
  \<open>requireAttrNotFound\<close> the diagnostic is \<open>BinaryValueNotFound\<close>, and both calls
  return \<open>None\<close>.
\<close>

theorem C4_absent_on_every_failure:
  "(getEntityPathFromDevTree cfg devtree p g = Inr (r, logged, g'') \<longrightarrow>
      (logged \<noteq> [] \<longleftrightarrow> r = None)) \<and>
   (normalizePath p = Inr l \<and> \<not> sizeof_physStringPath cfg < size_t_sub (length l) 1 \<and>
    pdbg_traverse (pdbgCallbackToGetPhysicaBinaryPath cfg) devtree
      (installPhysStringPath cfg l g) = Inr (ret, g') \<longrightarrow>
      (ret = 0 \<longrightarrow>
         getEntityPathFromDevTree cfg devtree p g = Inr (None, [PhysPathNotFound], g')) \<and>
      (ret = requireAttrNotFound \<longrightarrow>
         getEntityPathFromDevTree cfg devtree p g = Inr (None, [BinaryValueNotFound], g')))"
proof (intro conjI impI)
  assume "getEntityPathFromDevTree cfg devtree p g = Inr (r, logged, g'')"
  then show "logged \<noteq> [] \<longleftrightarrow> r = None" by (rule absent_iff_logged)
next
  assume h: "normalizePath p = Inr l \<and> \<not> sizeof_physStringPath cfg < size_t_sub (length l) 1 \<and>
    pdbg_traverse (pdbgCallbackToGetPhysicaBinaryPath cfg) devtree
      (installPhysStringPath cfg l g) = Inr (ret, g')"
  then have u: "getEntityPathFromDevTree cfg devtree p g =
           fbind (afterTraverse cfg ret (g_physBinaryPath g'))
             (\<lambda>(r, logged). Inr (r, logged, g'))"
    using getEntityPathFromDevTree_traversed[of p l cfg devtree g ret g'] by blast
  {
    assume "ret = 0"
    then show "getEntityPathFromDevTree cfg devtree p g = Inr (None, [PhysPathNotFound], g')"
      by (simp add: u afterTraverse_def fbind_def)
  next
    assume "ret = requireAttrNotFound"
    then show "getEntityPathFromDevTree cfg devtree p g = Inr (None, [BinaryValueNotFound], g')"
      by (simp add: u afterTraverse_def fbind_def requireAttrNotFound_def)
  }
qed

theorem C4_witness:
  "getEntityPathFromDevTree example_config (example_devtree example_config) ''/sys-0/node-1''
     (zeroed_globals example_config) =
     Inr (None, [PhysPathNotFound],
          installPhysStringPath example_config ''physical:sys-0/node-1''
            (zeroed_globals example_config)) \<and>
   getEntityPathFromDevTree example_config (example_devtree example_config)
     ''/sys-0/node-0/proc-0'' (zeroed_globals example_config) =
     Inr (None, [BinaryValueNotFound],
          installPhysStringPath example_config ''physical:sys-0/node-0/proc-0''
            (zeroed_globals example_config)) \<and>
   [PhysPathNotFound] \<noteq> [] \<and> [PhysPathNotFound] \<noteq> [BinaryValueNotFound]"
proof -
  let ?cfg = example_config and ?dt = "example_devtree example_config"
  let ?g = "zeroed_globals example_config"
  let ?g1 = "installPhysStringPath ?cfg ''physical:sys-0/node-1'' ?g"
  let ?g2 = "installPhysStringPath ?cfg ''physical:sys-0/node-0/proc-0'' ?g"
  have n1: "normalizePath ''/sys-0/node-1'' = Inr ''physical:sys-0/node-1''" by code_simp
  have n2: "normalizePath ''/sys-0/node-0/proc-0'' = Inr ''physical:sys-0/node-0/proc-0''"
    by code_simp
  have s1: "\<not> sizeof_physStringPath ?cfg < size_t_sub (length ''physical:sys-0/node-1'') 1"
    by (simp add: example_config_def size_t_sub_def)
  have s2: "\<not> sizeof_physStringPath ?cfg < size_t_sub (length ''physical:sys-0/node-0/proc-0'') 1"
    by (simp add: example_config_def size_t_sub_def)
  have t1: "pdbg_traverse (pdbgCallbackToGetPhysicaBinaryPath ?cfg) ?dt ?g1 = Inr (0, ?g1)"
    by code_simp
  have t2: "pdbg_traverse (pdbgCallbackToGetPhysicaBinaryPath ?cfg) ?dt ?g2 =
              Inr (requireAttrNotFound, ?g2)"
    by code_simp
  from C4_absent_on_every_failure[of ?cfg ?dt "''/sys-0/node-1''" ?g None "[PhysPathNotFound]" ?g1
      "''physical:sys-0/node-1''" 0 ?g1] n1 s1 t1
  have a: "getEntityPathFromDevTree ?cfg ?dt ''/sys-0/node-1'' ?g =
             Inr (None, [PhysPathNotFound], ?g1)" by blast
  from C4_absent_on_every_failure[of ?cfg ?dt "''/sys-0/node-0/proc-0''" ?g None
      "[BinaryValueNotFound]" ?g2 "''physical:sys-0/node-0/proc-0''" requireAttrNotFound ?g2]
    n2 s2 t2
  have b: "getEntityPathFromDevTree ?cfg ?dt ''/sys-0/node-0/proc-0'' ?g =
             Inr (None, [BinaryValueNotFound], ?g2)" by blast
  from a b show ?thesis by simp
qed

text \<open>
  C5: the element count is the low nibble of the first byte (its value modulo 16; the
  high nibble plays no part).  Whenever it exceeds \<open>maxPathElements\<close> the decoder returns
  \<open>None\<close> and logs both values; a first byte of \<open>0x3F\<close> with eight path elements
  fails so, with the count 15.
\<close>

theorem C5_count_is_low_nibble:
  "(raw \<noteq> [] \<and> maxPathElements cfg < unat (raw ! 0) mod 16 \<longrightarrow>
      decodeBinaryPath cfg raw =
        Inr (None, [PathElementsSizeMismatch (unat (raw ! 0) mod 16) (maxPathElements cfg)])) \<and>
   (maxPathElements cfg = 8 \<longrightarrow>
      decodeBinaryPath cfg (0x3F # rest) = Inr (None, [PathElementsSizeMismatch 15 8]))"
proof (intro conjI impI)
  assume "raw \<noteq> [] \<and> maxPathElements cfg < unat (raw ! 0) mod 16"
  then show "decodeBinaryPath cfg raw =
        Inr (None, [PathElementsSizeMismatch (unat (raw ! 0) mod 16) (maxPathElements cfg)])"
    using decodeBinaryPath_overflow[of raw cfg] by (simp add: low_nibble)
next
  assume m: "maxPathElements cfg = 8"
  have "unat ((0x3F # rest) ! 0 AND 0x0F) = 15" by simp
  then show "decodeBinaryPath cfg (0x3F # rest) = Inr (None, [PathElementsSizeMismatch 15 8])"
    using decodeBinaryPath_overflow[of "0x3F # rest" cfg] m by simp
qed

theorem C5_witness:
  "(0x3F # replicate 16 (0 :: 8 word) \<noteq> [] \<and>
    maxPathElements config_max8 < unat ((0x3F # replicate 16 (0 :: 8 word)) ! 0) mod 16) \<and>
   maxPathElements config_max8 = 8 \<and>
   decodeBinaryPath config_max8 (0x3F # replicate 16 0) =
     Inr (None, [PathElementsSizeMismatch 15 8])"
proof -
  have h: "0x3F # replicate 16 (0 :: 8 word) \<noteq> [] \<and>
    maxPathElements config_max8 < unat ((0x3F # replicate 16 (0 :: 8 word)) ! 0) mod 16"
    by (simp add: config_max8_def)
  have m: "maxPathElements config_max8 = 8" by (simp add: config_max8_def)
  from C5_count_is_low_nibble[of "0x3F # replicate 16 0" config_max8 "replicate 16 0"] h m
  show ?thesis by simp
qed

text \<open>
  C6: the three forms \<open>sys-0/node-0\<close>, \<open>/sys-0/node-0\<close> and \<open>physical:sys-0/node-0\<close>
  all normalise to the one canonical string \<open>physical:sys-0/node-0\<close>.
\<close>

theorem C6_three_forms_same_canonical:
  "normalizePath ''sys-0/node-0'' = Inr ''physical:sys-0/node-0'' \<and>
   normalizePath ''/sys-0/node-0'' = Inr ''physical:sys-0/node-0'' \<and>
   normalizePath ''physical:sys-0/node-0'' = Inr ''physical:sys-0/node-0''"
  by code_simp

text \<open>
  C7: normalising twice should give what normalising once gives.  Because the test of
  line 135 accepts the scheme token anywhere, \<open>//physical:a\<close> normalises to
  \<open>/physical:a\<close>, which still starts with a separator and normalises further to
  \<open>physical:a\<close>.  (Lemma \<open>normalizePath_idem_if_prefixed\<close>: a result that does begin with
  the scheme token is a fixed point.)
\<close>

theorem C7_not_idempotent:
  "normalizePath ''//physical:a'' = Inr ''/physical:a'' \<and>
   normalizePath ''/physical:a'' = Inr ''physical:a''"
  by code_simp

text \<open>
  C8: after a traversal that found the binary attribute, if \<open>sizeof_EntityPath\<close> is
  smaller than \<open>sizeof_physBinaryPath\<close> the call returns \<open>None\<close> and logs both sizes,
  whatever the buffer holds: no byte of it is read.
\<close>

theorem C8_size_mismatch_before_decoding:
  "(sizeof_EntityPath cfg < sizeof_physBinaryPath cfg \<and> ret \<noteq> 0 \<and> ret \<noteq> requireAttrNotFound \<longrightarrow>
      afterTraverse cfg ret raw =
        Inr (None, [BinarySizeMismatch (sizeof_physBinaryPath cfg) (sizeof_EntityPath cfg)])) \<and>
   (sizeof_EntityPath cfg < sizeof_physBinaryPath cfg \<and>
    normalizePath p = Inr l \<and> \<not> sizeof_physStringPath cfg < size_t_sub (length l) 1 \<and>
    pdbg_traverse (pdbgCallbackToGetPhysicaBinaryPath cfg) devtree
      (installPhysStringPath cfg l g) = Inr (requireAttrFound, g') \<longrightarrow>
      getEntityPathFromDevTree cfg devtree p g =
        Inr (None, [BinarySizeMismatch (sizeof_physBinaryPath cfg) (sizeof_EntityPath cfg)], g'))"
proof (intro conjI impI)
  assume "sizeof_EntityPath cfg < sizeof_physBinaryPath cfg \<and> ret \<noteq> 0 \<and>
          ret \<noteq> requireAttrNotFound"
  then show "afterTraverse cfg ret raw =
        Inr (None, [BinarySizeMismatch (sizeof_physBinaryPath cfg) (sizeof_EntityPath cfg)])"
    by (simp add: afterTraverse_def)
next
  assume h: "sizeof_EntityPath cfg < sizeof_physBinaryPath cfg \<and>
    normalizePath p = Inr l \<and> \<not> sizeof_physStringPath cfg < size_t_sub (length l) 1 \<and>
    pdbg_traverse (pdbgCallbackToGetPhysicaBinaryPath cfg) devtree
      (installPhysStringPath cfg l g) = Inr (requireAttrFound, g')"
  then have "getEntityPathFromDevTree cfg devtree p g =
           fbind (afterTraverse cfg requireAttrFound (g_physBinaryPath g'))
             (\<lambda>(r, logged). Inr (r, logged, g'))"
    using getEntityPathFromDevTree_traversed[of p l cfg devtree g requireAttrFound g'] by blast
  with h show "getEntityPathFromDevTree cfg devtree p g =
        Inr (None, [BinarySizeMismatch (sizeof_physBinaryPath cfg) (sizeof_EntityPath cfg)], g')"
    by (simp add: afterTraverse_def fbind_def requireAttrFound_def requireAttrNotFound_def)
qed

theorem C8_witness:
  "(sizeof_EntityPath skewed_config < sizeof_physBinaryPath skewed_config \<and>
    requireAttrFound \<noteq> 0 \<and> requireAttrFound \<noteq> requireAttrNotFound) \<and>
   afterTraverse skewed_config requireAttrFound [] = Inr (None, [BinarySizeMismatch 21 17]) \<and>
   getEntityPathFromDevTree skewed_config (example_devtree skewed_config) ''sys-0/node-0''
     (zeroed_globals skewed_config) =
     Inr (None, [BinarySizeMismatch 21 17],
          \<lparr>g_physBinaryPath = bin_path_attr skewed_config [0x22, 0x01, 0x00, 0x02, 0x00],
           g_physStringPath = dev_path_attr skewed_config ''physical:sys-0/node-0''\<rparr>)"
proof -
  let ?cfg = skewed_config and ?dt = "example_devtree skewed_config"
  let ?g = "zeroed_globals skewed_config"
  let ?g' = "\<lparr>g_physBinaryPath = bin_path_attr skewed_config [0x22, 0x01, 0x00, 0x02, 0x00],
           g_physStringPath = dev_path_attr skewed_config ''physical:sys-0/node-0''\<rparr>"
  have sz: "sizeof_EntityPath ?cfg < sizeof_physBinaryPath ?cfg"
    "sizeof_physBinaryPath ?cfg = 21" "sizeof_EntityPath ?cfg = 17"
    by (simp_all add: skewed_config_def)
  have rc: "requireAttrFound \<noteq> 0 \<and> requireAttrFound \<noteq> requireAttrNotFound"
    by (simp add: requireAttrFound_def requireAttrNotFound_def)
  have n: "normalizePath ''sys-0/node-0'' = Inr ''physical:sys-0/node-0''" by code_simp
  have s: "\<not> sizeof_physStringPath ?cfg < size_t_sub (length ''physical:sys-0/node-0'') 1"
    by (simp add: skewed_config_def size_t_sub_def)
  have t: "pdbg_traverse (pdbgCallbackToGetPhysicaBinaryPath ?cfg) ?dt
             (installPhysStringPath ?cfg ''physical:sys-0/node-0'' ?g) =
           Inr (requireAttrFound, ?g')"
    by code_simp
  from C8_size_mismatch_before_decoding[of ?cfg requireAttrFound "[]" "''sys-0/node-0''"
      "''physical:sys-0/node-0''" ?dt ?g ?g'] sz rc n s t
  show ?thesis by simp
qed

text \<open>
  C9, as the code has it: two calls that do not overlap never observe each other's search
  target or binary result, since what a call returns and logs is the same whatever the
  two buffers held when it started.  Two calls that overlap are not isolated: both go
  through the same two file-level buffers, so when the second call installs its path
  after the first has installed its own and before the first traverses, the second
  call's path replaces the first call's search target, and the first call returns and
  logs what a call for the second path does.
\<close>

theorem C9_isolated_unless_overlapped:
  "returnedAndLogged (getEntityPathFromDevTree cfg devtree p g) =
     returnedAndLogged (getEntityPathFromDevTree cfg devtree p g0) \<and>
   g_physStringPath (installPhysStringPath cfg lB (installPhysStringPath cfg lA g)) =
     g_physStringPath (installPhysStringPath cfg lB g) \<and>
   returnedAndLogged (overlappedFirstCall cfg devtree lA lB g) =
     returnedAndLogged (traverseAndDecode cfg devtree (installPhysStringPath cfg lB g))"
proof (intro conjI)
  show "returnedAndLogged (getEntityPathFromDevTree cfg devtree p g) =
     returnedAndLogged (getEntityPathFromDevTree cfg devtree p g0)"
  proof (cases "normalizePath p")
    case (Inl f)
    then show ?thesis by (simp add: getEntityPathFromDevTree_def fbind_def)
  next
    case (Inr l)
    show ?thesis
    proof (cases "sizeof_physStringPath cfg < size_t_sub (length l) 1")
      case True
      with Inr show ?thesis
        by (simp add: getEntityPathFromDevTree_def fbind_def returnedAndLogged_def)
    next
      case False
      have "returnedAndLogged (traverseAndDecode cfg devtree (installPhysStringPath cfg l g)) =
            returnedAndLogged (traverseAndDecode cfg devtree (installPhysStringPath cfg l g0))"
        by (rule traverseAndDecode_same_target) (simp only: install_string)
      with Inr False show ?thesis
        by (simp add: getEntityPathFromDevTree_def fbind_def)
    qed
  qed
next
  show over: "g_physStringPath (installPhysStringPath cfg lB (installPhysStringPath cfg lA g)) =
     g_physStringPath (installPhysStringPath cfg lB g)"
    by (simp only: install_string)
  show "returnedAndLogged (overlappedFirstCall cfg devtree lA lB g) =
     returnedAndLogged (traverseAndDecode cfg devtree (installPhysStringPath cfg lB g))"
    unfolding overlappedFirstCall_def using over by (rule traverseAndDecode_same_target)
qed

text \<open>
  The overlap on the example device tree: the call for \<open>sys-0/node-0\<close> alone returns the
  path with \<open>type_size = 0x22\<close>; overlapped by a call for \<open>sys-0\<close>, its search target
  is overwritten and it returns the path of \<open>sys-0\<close>, with \<open>type_size = 0x21\<close>.
\<close>

theorem C9_overlapped_call_gets_other_result:
  "returnedAndLogged
     (overlappedFirstCall example_config (example_devtree example_config)
        ''physical:sys-0/node-0'' ''physical:sys-0'' (zeroed_globals example_config)) \<noteq>
   returnedAndLogged
     (getEntityPathFromDevTree example_config (example_devtree example_config) ''sys-0/node-0''
        (zeroed_globals example_config)) \<and>
   returnedAndLogged
     (getEntityPathFromDevTree example_config (example_devtree example_config) ''sys-0/node-0''
        (zeroed_globals example_config)) =
     Inr (Some \<lparr>type_size = 0x22,
            pathElements = \<lparr>targetType = 1, instance' = 0\<rparr> #
              \<lparr>targetType = 2, instance' = 0\<rparr> #
              replicate 8 \<lparr>targetType = 0, instance' = 0\<rparr>\<rparr>, []) \<and>
   normalizePath ''sys-0/node-0'' = Inr ''physical:sys-0/node-0'' \<and>
   normalizePath ''sys-0'' = Inr ''physical:sys-0'' \<and>
   g_physStringPath
     (installPhysStringPath example_config ''physical:sys-0''
        (installPhysStringPath example_config ''physical:sys-0/node-0''
           (zeroed_globals example_config))) =
     dev_path_attr example_config ''physical:sys-0'' \<and>
   returnedAndLogged
     (overlappedFirstCall example_config (example_devtree example_config)
        ''physical:sys-0/node-0'' ''physical:sys-0'' (zeroed_globals example_config)) =
     Inr (Some \<lparr>type_size = 0x21,
            pathElements = \<lparr>targetType = 1, instance' = 0\<rparr> #
              replicate 9 \<lparr>targetType = 0, instance' = 0\<rparr>\<rparr>, [])"
  by code_simp

text \<open>
  C10: on the empty string nothing throws: the comparison with the separator is false, so
  nothing is erased, the scheme token is prepended and the normalised string is
  \<open>physical:\<close>.  The call then behaves as it does on the input \<open>physical:\<close>; with a
  string buffer of at least 8 bytes the length check passes and the traversal runs with
  \<open>physical:\<close> installed as the search target.
\<close>

theorem C10_empty_input:
  "str_compare_is_0 '''' 0 1 ''/'' = Inr False \<and>
   normalizePath '''' = Inr ''physical:'' \<and>
   getEntityPathFromDevTree cfg devtree '''' g =
     getEntityPathFromDevTree cfg devtree ''physical:'' g \<and>
   (8 \<le> sizeof_physStringPath cfg \<longrightarrow>
      getEntityPathFromDevTree cfg devtree '''' g =
        traverseAndDecode cfg devtree (installPhysStringPath cfg ''physical:'' g))"
proof -
  have c: "str_compare_is_0 '''' 0 1 ''/'' = Inr False"
    by (simp add: str_compare_is_0_def)
  have n: "normalizePath '''' = Inr ''physical:''" by code_simp
  have n': "normalizePath ''physical:'' = Inr ''physical:''" by code_simp
  have same: "getEntityPathFromDevTree cfg devtree '''' g =
     getEntityPathFromDevTree cfg devtree ''physical:'' g"
    by (simp only: getEntityPathFromDevTree_def n n')
  have "getEntityPathFromDevTree cfg devtree '''' g =
        traverseAndDecode cfg devtree (installPhysStringPath cfg ''physical:'' g)"
    if "8 \<le> sizeof_physStringPath cfg"
    using that by (simp add: getEntityPathFromDevTree_def n fbind_def size_t_sub_def)
  with c n same show ?thesis by blast
qed

theorem C10_witness:
  "8 \<le> sizeof_physStringPath example_config \<and>
   getEntityPathFromDevTree example_config (example_devtree example_config) ''''
     (zeroed_globals example_config) =
     Inr (None, [PhysPathNotFound],
          \<lparr>g_physBinaryPath = replicate 21 0,
           g_physStringPath = dev_path_attr example_config ''physical:''\<rparr>)"
proof -
  have h: "8 \<le> sizeof_physStringPath example_config" by (simp add: example_config_def)
  have t: "traverseAndDecode example_config (example_devtree example_config)
             (installPhysStringPath example_config ''physical:'' (zeroed_globals example_config)) =
           Inr (None, [PhysPathNotFound],
             \<lparr>g_physBinaryPath = replicate 21 0,
              g_physStringPath = dev_path_attr example_config ''physical:''\<rparr>)"
    by code_simp
  from C10_empty_input[of example_config "example_devtree example_config"
      "zeroed_globals example_config"] h
  have "getEntityPathFromDevTree example_config (example_devtree example_config) ''''
          (zeroed_globals example_config) =
        traverseAndDecode example_config (example_devtree example_config)
          (installPhysStringPath example_config ''physical:'' (zeroed_globals example_config))"
    by blast
  with h t show ?thesis by simp
qed

end
